theory Spec2Isabelle
  imports Complex_Main
begin

section \<open>Data model (src/types.ts)\<close>

text \<open>
  A JavaScript \<open>number\<close> that the code only stores and compares is modelled as a
  \<open>real\<close>: every finite double is a real, and none of the functions below does
  arithmetic on a coordinate. The fields \<open>id\<close>, \<open>text\<close>, \<open>x\<close> and \<open>y\<close> of the
  interface \<open>TextOverlay\<close> carry the prefix \<open>overlay_\<close>, since the bare names are taken.
\<close>

record TextOverlay =
  overlay_id :: string
  overlay_text :: string
  overlay_x :: real
  overlay_y :: real
  fontSize :: real
  color :: string
  isUppercase :: bool

datatype LoadingState = IDLE | GENERATING_CAPTIONS | EDITING_IMAGE | ANALYZING

datatype Category = Funny | Sarcastic | Wholesome | Dark | Viral

record GeneratedCaption =
  caption_text :: string
  category :: Category

section \<open>Component state (the \<open>useState\<close> hooks of \<open>App\<close>, src/App.tsx lines 28-36)\<close>

record AppState =
  currentImage :: "string option"
  currentMimeType :: string
  texts :: "TextOverlay list"
  captions :: "GeneratedCaption list"
  loadingState :: LoadingState
  analysisText :: string
  showAnalysis :: bool
  editPrompt :: string
  errorMsg :: "string option"

definition initialState :: AppState where
  "initialState =
     \<lparr>currentImage = None, currentMimeType = ''image/jpeg'', texts = [], captions = [],
      loadingState = IDLE, analysisText = [], showAnalysis = False, editPrompt = [],
      errorMsg = None\<rparr>"

section \<open>The environment: promises, files, responses\<close>

text \<open>
  An awaited promise either rejects (the \<open>catch\<close> branch runs) or fulfils with a value.
  \<open>!currentImage\<close> holds for null and for the empty string; the handlers below test both.
  The service functions, \<open>fetch\<close> and the file reader are external; each handler takes
  them as parameters, so every theorem holds for every behaviour of the collaborators.
\<close>

datatype 'a settled = Rejected | Fulfilled 'a

record File =
  file_type :: string
  file_bytes :: string

record Blob =
  blob_type :: string
  blob_bytes :: string

text \<open>
  A \<open>Response\<close> as \<open>fetch\<close> resolves it: \<open>fetch\<close> rejects on a network failure only, and
  resolves with \<open>ok = false\<close> on an HTTP error status.
\<close>

record Response =
  ok :: bool
  status :: nat
  blob :: "Blob settled"

section \<open>JavaScript primitives used by the handlers\<close>

text \<open>\<open>str.split(',')[1]\<close>: the text between the first and the second comma,
  \<open>undefined\<close> when the string has no comma.\<close>

definition split_comma_1 :: "string \<Rightarrow> string option" where
  "split_comma_1 str =
     (let rest = dropWhile (\<lambda>c. c \<noteq> CHR '','') str
      in if rest = [] then None else Some (takeWhile (\<lambda>c. c \<noteq> CHR '','') (tl rest)))"

text \<open>\<open>String.prototype.trim\<close> on 8-bit characters: tab, line feed, vertical tab, form
  feed, carriage return, space and the no-break space are white space.\<close>

definition isWhiteSpace :: "char \<Rightarrow> bool" where
  "isWhiteSpace c = (of_char c \<in> {9, 10, 11, 12, 13, 32, 160 :: nat})"

definition trim :: "string \<Rightarrow> string" where
  "trim str = rev (dropWhile isWhiteSpace (rev (dropWhile isWhiteSpace str)))"

text \<open>\<open>Number.prototype.toString\<close> on an integer (\<open>Date.now()\<close> is an integral number of
  milliseconds, far below the 1e21 where the exponent notation starts).\<close>

definition digit_char :: "nat \<Rightarrow> char" where
  "digit_char d = ''0123456789'' ! d"

function nat_toString :: "nat \<Rightarrow> string" where
  "nat_toString n =
     (if n < 10 then [digit_char n] else nat_toString (n div 10) @ [digit_char (n mod 10)])"
  by pat_completeness auto
termination
  by (relation "measure (\<lambda>n. n)") auto

declare nat_toString.simps [simp del]

definition toString :: "int \<Rightarrow> string" where
  "toString i = (if i < 0 then CHR ''-'' # nat_toString (nat (- i)) else nat_toString (nat i))"

section \<open>Image loading (src/App.tsx lines 41-77)\<close>

definition handleFileChange ::
  "(File \<Rightarrow> string settled) \<Rightarrow> File option \<Rightarrow> AppState \<Rightarrow> AppState" where
  "handleFileChange fileToGenerativePart file s =
     (case file of
        None \<Rightarrow> s
      | Some f \<Rightarrow>
          (case fileToGenerativePart f of
             Fulfilled base64 \<Rightarrow>
               s\<lparr>currentImage := Some (''data:'' @ file_type f @ '';base64,'' @ base64),
                 currentMimeType := file_type f,
                 captions := [],
                 texts := [],
                 errorMsg := None\<rparr>
           | Rejected \<Rightarrow> s\<lparr>errorMsg := Some ''Failed to load image''\<rparr>))"

text \<open>
  \<open>handleSelectTemplate\<close> runs in two parts. The body awaits \<open>fetch\<close> and
  \<open>response.blob()\<close>, starts the file reader and clears captions, overlays and the error
  slot; it never reads \<open>response.ok\<close>. The reader's \<open>onloadend\<close> callback runs later, on
  success and on failure alike, and stores \<open>reader.result\<close> (null after a read error) and
  \<open>blob.type\<close>.
\<close>

definition handleSelectTemplate_body ::
  "(string \<Rightarrow> Response settled) \<Rightarrow> string \<Rightarrow> AppState \<Rightarrow> AppState \<times> Blob option" where
  "handleSelectTemplate_body fetch url s =
     (case fetch url of
        Rejected \<Rightarrow> (s\<lparr>errorMsg := Some ''Failed to load template''\<rparr>, None)
      | Fulfilled response \<Rightarrow>
          (case blob response of
             Rejected \<Rightarrow> (s\<lparr>errorMsg := Some ''Failed to load template''\<rparr>, None)
           | Fulfilled b \<Rightarrow> (s\<lparr>captions := [], texts := [], errorMsg := None\<rparr>, Some b)))"

definition reader_onloadend :: "string option \<Rightarrow> Blob \<Rightarrow> AppState \<Rightarrow> AppState" where
  "reader_onloadend result b s = s\<lparr>currentImage := result, currentMimeType := blob_type b\<rparr>"

text \<open>The whole template load, with no other event between the body and the callback.\<close>

definition handleSelectTemplate ::
  "(string \<Rightarrow> Response settled) \<Rightarrow> (Blob \<Rightarrow> string option) \<Rightarrow> string \<Rightarrow> AppState \<Rightarrow> AppState" where
  "handleSelectTemplate fetch readAsDataURL url s =
     (case handleSelectTemplate_body fetch url s of
        (s', None) \<Rightarrow> s'
      | (s', Some b) \<Rightarrow> reader_onloadend (readAsDataURL b) b s')"

section \<open>The three AI operations (src/App.tsx lines 80-130)\<close>

text \<open>
  Each handler is split at its \<open>await\<close>: \<open>_start\<close> is the synchronous part before the
  adapter call, \<open>_settle\<close> the \<open>try\<close>/\<open>catch\<close>/\<open>finally\<close> continuation, which reads no
  variable of the closure and so is a function of the state it resumes in. The handler
  itself composes the two on the state it was called in.
\<close>

definition handleMagicCaption_start :: "AppState \<Rightarrow> AppState" where
  "handleMagicCaption_start s = s\<lparr>loadingState := GENERATING_CAPTIONS, errorMsg := None\<rparr>"

definition handleMagicCaption_settle :: "GeneratedCaption list settled \<Rightarrow> AppState \<Rightarrow> AppState" where
  "handleMagicCaption_settle r s =
     (case r of
        Fulfilled result \<Rightarrow> s\<lparr>captions := result\<rparr>
      | Rejected \<Rightarrow> s\<lparr>errorMsg := Some ''Failed to generate captions. Try again.''\<rparr>)
     \<lparr>loadingState := IDLE\<rparr>"

definition handleMagicCaption ::
  "(string option \<Rightarrow> string \<Rightarrow> GeneratedCaption list settled) \<Rightarrow> AppState \<Rightarrow> AppState" where
  "handleMagicCaption generateMagicCaptions s =
     (case currentImage s of
        None \<Rightarrow> s
      | Some img \<Rightarrow>
          if img = [] then s
          else handleMagicCaption_settle
                 (generateMagicCaptions (split_comma_1 img) (currentMimeType s))
                 (handleMagicCaption_start s))"

definition handleEditImage_start :: "AppState \<Rightarrow> AppState" where
  "handleEditImage_start s = s\<lparr>loadingState := EDITING_IMAGE, errorMsg := None\<rparr>"

definition handleEditImage_settle :: "string settled \<Rightarrow> AppState \<Rightarrow> AppState" where
  "handleEditImage_settle r s =
     (case r of
        Fulfilled newImageBase64 \<Rightarrow> s\<lparr>currentImage := Some newImageBase64, editPrompt := []\<rparr>
      | Rejected \<Rightarrow> s\<lparr>errorMsg := Some ''Failed to edit image. The model might be busy.''\<rparr>)
     \<lparr>loadingState := IDLE\<rparr>"

definition handleEditImage ::
  "(string option \<Rightarrow> string \<Rightarrow> string \<Rightarrow> string settled) \<Rightarrow> AppState \<Rightarrow> AppState" where
  "handleEditImage editMemeImage s =
     (case currentImage s of
        None \<Rightarrow> s
      | Some img \<Rightarrow>
          if img = [] \<or> trim (editPrompt s) = [] then s
          else handleEditImage_settle
                 (editMemeImage (split_comma_1 img) (currentMimeType s) (editPrompt s))
                 (handleEditImage_start s))"

definition handleAnalyze_start :: "AppState \<Rightarrow> AppState" where
  "handleAnalyze_start s = s\<lparr>loadingState := ANALYZING, errorMsg := None\<rparr>"

definition handleAnalyze_settle :: "string settled \<Rightarrow> AppState \<Rightarrow> AppState" where
  "handleAnalyze_settle r s =
     (case r of
        Fulfilled analysis \<Rightarrow> s\<lparr>analysisText := analysis, showAnalysis := True\<rparr>
      | Rejected \<Rightarrow> s\<lparr>errorMsg := Some ''Analysis failed.''\<rparr>)
     \<lparr>loadingState := IDLE\<rparr>"

definition handleAnalyze ::
  "(string option \<Rightarrow> string \<Rightarrow> string settled) \<Rightarrow> AppState \<Rightarrow> AppState" where
  "handleAnalyze analyzeMemeContext s =
     (case currentImage s of
        None \<Rightarrow> s
      | Some img \<Rightarrow>
          if img = [] then s
          else handleAnalyze_settle
                 (analyzeMemeContext (split_comma_1 img) (currentMimeType s))
                 (handleAnalyze_start s))"

section \<open>Text overlays (src/App.tsx lines 132-151)\<close>

text \<open>\<open>now\<close> is the value \<open>Date.now()\<close> returns when the handler runs.\<close>

definition addTextOverlay :: "int \<Rightarrow> string \<Rightarrow> AppState \<Rightarrow> AppState" where
  "addTextOverlay now text s =
     (let newText =
            \<lparr>overlay_id = toString now,
             overlay_text = text,
             overlay_x = 50,
             overlay_y = (if length (texts s) = 0 then 10 else 90),
             fontSize = 32,
             color = ''#FFFFFF'',
             isUppercase = True\<rparr>
      in s\<lparr>texts := texts s @ [newText]\<rparr>)"

definition updateTextPosition :: "string \<Rightarrow> real \<Rightarrow> real \<Rightarrow> AppState \<Rightarrow> AppState" where
  "updateTextPosition i x y s =
     s\<lparr>texts := map (\<lambda>t. if overlay_id t = i then t\<lparr>overlay_x := x, overlay_y := y\<rparr> else t)
                    (texts s)\<rparr>"

definition removeText :: "string \<Rightarrow> AppState \<Rightarrow> AppState" where
  "removeText i s = s\<lparr>texts := filter (\<lambda>t. overlay_id t \<noteq> i) (texts s)\<rparr>"

text \<open>The other two setters the view calls directly: the prompt input's \<open>onChange\<close> and
  the analysis dialog's \<open>onClose\<close>.\<close>

definition setEditPrompt :: "string \<Rightarrow> AppState \<Rightarrow> AppState" where
  "setEditPrompt v s = s\<lparr>editPrompt := v\<rparr>"

definition setShowAnalysis :: "bool \<Rightarrow> AppState \<Rightarrow> AppState" where
  "setShowAnalysis v s = s\<lparr>showAnalysis := v\<rparr>"

section \<open>Collaborator doubles for the concrete scenarios\<close>

text \<open>Each double settles with the given outcome on every call.\<close>

definition stub_fileToGenerativePart :: "string settled \<Rightarrow> File \<Rightarrow> string settled" where
  "stub_fileToGenerativePart r f = r"

definition stub_fetch :: "Response settled \<Rightarrow> string \<Rightarrow> Response settled" where
  "stub_fetch r url = r"

definition stub_readAsDataURL :: "string option \<Rightarrow> Blob \<Rightarrow> string option" where
  "stub_readAsDataURL r b = r"

definition stub_generateMagicCaptions ::
  "GeneratedCaption list settled \<Rightarrow> string option \<Rightarrow> string \<Rightarrow> GeneratedCaption list settled" where
  "stub_generateMagicCaptions r base64Data mimeType = r"

definition stub_editMemeImage ::
  "string settled \<Rightarrow> string option \<Rightarrow> string \<Rightarrow> string \<Rightarrow> string settled" where
  "stub_editMemeImage r base64Data mimeType prompt = r"

definition stub_analyzeMemeContext ::
  "string settled \<Rightarrow> string option \<Rightarrow> string \<Rightarrow> string settled" where
  "stub_analyzeMemeContext r base64Data mimeType = r"

text \<open>A sequence of \<open>add\<close> calls, each with the clock value it reads and its text.\<close>

definition addAll :: "(int \<times> string) list \<Rightarrow> AppState \<Rightarrow> AppState" where
  "addAll calls s = fold (\<lambda>(now, text). addTextOverlay now text) calls s"

section \<open>A concrete session\<close>

text \<open>
  The state after this session: a JPEG is uploaded, captions are generated, two overlays
  are added half a second apart, an analysis succeeds and its dialog is closed, a second
  analysis fails, and an edit prompt is typed.
\<close>

definition exampleState :: AppState where
  "exampleState =
     \<lparr>currentImage = Some ''data:image/jpeg;base64,QUFB'',
      currentMimeType = ''image/jpeg'',
      texts =
        [\<lparr>overlay_id = ''1700000000000'', overlay_text = ''TOP'', overlay_x = 50,
          overlay_y = 10, fontSize = 32, color = ''#FFFFFF'', isUppercase = True\<rparr>,
         \<lparr>overlay_id = ''1700000000500'', overlay_text = ''BOTTOM'', overlay_x = 50,
          overlay_y = 90, fontSize = 32, color = ''#FFFFFF'', isUppercase = True\<rparr>],
      captions = [\<lparr>caption_text = ''TOP'', category = Funny\<rparr>],
      loadingState = IDLE,
      analysisText = ''A cat.'',
      showAnalysis = False,
      editPrompt = ''add sunglasses'',
      errorMsg = Some ''Analysis failed.''\<rparr>"

section \<open>Evaluating the handlers\<close>

lemma handleFileChange_fulfilled:
  "fileToGenerativePart f = Fulfilled encoded \<Longrightarrow>
   handleFileChange fileToGenerativePart (Some f) s =
     s\<lparr>currentImage := Some (''data:'' @ file_type f @ '';base64,'' @ encoded),
       currentMimeType := file_type f, captions := [], texts := [], errorMsg := None\<rparr>"
  by (simp add: handleFileChange_def)

lemma handleSelectTemplate_fulfilled:
  "fetch url = Fulfilled response \<Longrightarrow> blob response = Fulfilled b \<Longrightarrow>
   handleSelectTemplate fetch readAsDataURL url s =
     s\<lparr>captions := [], texts := [], errorMsg := None,
       currentImage := readAsDataURL b, currentMimeType := blob_type b\<rparr>"
  by (simp add: handleSelectTemplate_def handleSelectTemplate_body_def reader_onloadend_def)

lemma handleSelectTemplate_rejected:
  "fetch url = Rejected \<or> (\<exists>response. fetch url = Fulfilled response \<and> blob response = Rejected) \<Longrightarrow>
   handleSelectTemplate fetch readAsDataURL url s = s\<lparr>errorMsg := Some ''Failed to load template''\<rparr>"
  by (auto simp: handleSelectTemplate_def handleSelectTemplate_body_def)

lemma handleMagicCaption_entered:
  "currentImage s = Some img \<Longrightarrow> img \<noteq> [] \<Longrightarrow>
   handleMagicCaption generateMagicCaptions s =
     handleMagicCaption_settle (generateMagicCaptions (split_comma_1 img) (currentMimeType s))
       (handleMagicCaption_start s)"
  by (simp add: handleMagicCaption_def)

lemma handleEditImage_entered:
  "currentImage s = Some img \<Longrightarrow> img \<noteq> [] \<Longrightarrow> trim (editPrompt s) \<noteq> [] \<Longrightarrow>
   handleEditImage editMemeImage s =
     handleEditImage_settle (editMemeImage (split_comma_1 img) (currentMimeType s) (editPrompt s))
       (handleEditImage_start s)"
  by (simp add: handleEditImage_def)

lemma handleAnalyze_entered:
  "currentImage s = Some img \<Longrightarrow> img \<noteq> [] \<Longrightarrow>
   handleAnalyze analyzeMemeContext s =
     handleAnalyze_settle (analyzeMemeContext (split_comma_1 img) (currentMimeType s))
       (handleAnalyze_start s)"
  by (simp add: handleAnalyze_def)

lemma settle_loadingState:
  "loadingState (handleMagicCaption_settle r1 s1) = IDLE"
  "loadingState (handleEditImage_settle r2 s2) = IDLE"
  "loadingState (handleAnalyze_settle r3 s3) = IDLE"
  by (simp_all add: handleMagicCaption_settle_def handleEditImage_settle_def
      handleAnalyze_settle_def split: settled.split)

lemma handleEditImage_mimeType: "currentMimeType (handleEditImage editMemeImage s) = currentMimeType s"
  by (simp add: handleEditImage_def handleEditImage_settle_def handleEditImage_start_def
      split: option.split settled.split)

lemma updateTextPosition_matched:
  assumes "t \<in> set (texts (updateTextPosition i x y s))" and "overlay_id t = i"
  shows "overlay_x t = x \<and> overlay_y t = y"
proof -
  from assms(1) obtain u where "u \<in> set (texts s)"
    and t: "t = (if overlay_id u = i then u\<lparr>overlay_x := x, overlay_y := y\<rparr> else u)"
    unfolding updateTextPosition_def by auto
  show ?thesis
  proof (cases "overlay_id u = i")
    case True
    with t show ?thesis by simp
  next
    case False
    with t assms(2) show ?thesis by simp
  qed
qed

lemma handleSelectTemplate_ignores_status:
  "handleSelectTemplate (stub_fetch (Fulfilled (response\<lparr>ok := a, status := n\<rparr>))) readAsDataURL url s
     = handleSelectTemplate (stub_fetch (Fulfilled response)) readAsDataURL url s"
  by (simp add: handleSelectTemplate_def handleSelectTemplate_body_def stub_fetch_def)

lemma toString_examples:
  "toString 1700000000000 = ''1700000000000''"
  "toString 1700000000500 = ''1700000000500''"
  by (simp_all add: toString_def nat_toString.simps digit_char_def)

text \<open>The concrete session really leads to \<open>exampleState\<close>.\<close>

lemma exampleState_reachable:
  "exampleState =
     setEditPrompt ''add sunglasses''
      (handleAnalyze (stub_analyzeMemeContext Rejected)
        (setShowAnalysis False
          (handleAnalyze (stub_analyzeMemeContext (Fulfilled ''A cat.''))
            (addTextOverlay 1700000000500 ''BOTTOM''
              (addTextOverlay 1700000000000 ''TOP''
                (handleMagicCaption
                  (stub_generateMagicCaptions
                    (Fulfilled [\<lparr>caption_text = ''TOP'', category = Funny\<rparr>]))
                  (handleFileChange (stub_fileToGenerativePart (Fulfilled ''QUFB''))
                    (Some \<lparr>file_type = ''image/jpeg'', file_bytes = ''AAA''\<rparr>)
                    initialState)))))))"
  by (simp add: exampleState_def setEditPrompt_def setShowAnalysis_def handleAnalyze_def
      handleAnalyze_start_def handleAnalyze_settle_def stub_analyzeMemeContext_def
      addTextOverlay_def toString_examples
      handleMagicCaption_def handleMagicCaption_start_def handleMagicCaption_settle_def
      stub_generateMagicCaptions_def handleFileChange_def stub_fileToGenerativePart_def
      initialState_def)

section \<open>Decimal rendering is injective\<close>

lemma distinct_digits: "distinct ''0123456789''"
  by simp

lemma digit_char_inj: "a < 10 \<Longrightarrow> b < 10 \<Longrightarrow> digit_char a = digit_char b \<Longrightarrow> a = b"
  unfolding digit_char_def
  using nth_eq_iff_index_eq [OF distinct_digits, of a b] by simp

lemma digit_char_mem: "d < 10 \<Longrightarrow> digit_char d \<in> set ''0123456789''"
  unfolding digit_char_def by (rule nth_mem) simp

lemma digit_char_not_minus: "d < 10 \<Longrightarrow> digit_char d \<noteq> CHR ''-''"
  using digit_char_mem [of d] by auto

lemma nat_toString_nonempty: "nat_toString n \<noteq> []"
  by (subst nat_toString.simps) simp

lemma nat_toString_last: "last (nat_toString n) = digit_char (n mod 10)"
  by (subst nat_toString.simps) simp

lemma nat_toString_butlast:
  "butlast (nat_toString n) = (if n < 10 then [] else nat_toString (n div 10))"
  by (subst nat_toString.simps) simp

lemma nat_toString_hd_not_minus: "hd (nat_toString n) \<noteq> CHR ''-''"
proof (induction n rule: nat_toString.induct)
  case (1 n)
  show ?case
  proof (cases "n < 10")
    case True
    then show ?thesis by (subst nat_toString.simps) (simp add: digit_char_not_minus)
  next
    case False
    with 1 show ?thesis
      by (subst nat_toString.simps) (simp add: nat_toString_nonempty)
  qed
qed

lemma nat_toString_inj: "nat_toString m = nat_toString n \<Longrightarrow> m = n"
proof (induction m arbitrary: n rule: nat_toString.induct)
  case (1 m)
  from 1(2) have "digit_char (m mod 10) = digit_char (n mod 10)"
    using nat_toString_last by metis
  then have units: "m mod 10 = n mod 10"
    by (intro digit_char_inj) simp_all
  from 1(2) have front: "butlast (nat_toString m) = butlast (nat_toString n)" by simp
  have ne: "nat_toString (k div 10) \<noteq> []" "[] \<noteq> nat_toString (k div 10)" for k
    using nat_toString_nonempty [of "k div 10"] by auto
  show ?case
  proof (cases "m < 10")
    case True
    with front have "n < 10"
      by (auto simp: nat_toString_butlast ne split: if_splits)
    with True units show ?thesis by simp
  next
    case False
    with front have "\<not> n < 10" and eq: "nat_toString (m div 10) = nat_toString (n div 10)"
      by (auto simp: nat_toString_butlast ne split: if_splits)
    from 1(1) [OF False eq] have "m div 10 = n div 10" .
    with units show ?thesis
      by (metis div_mult_mod_eq)
  qed
qed

lemma toString_inj: "toString i = toString j \<Longrightarrow> i = j"
proof -
  assume eq: "toString i = toString j"
  have sign: "hd (toString k) = CHR ''-'' \<longleftrightarrow> k < 0" for k
    by (simp add: toString_def nat_toString_hd_not_minus)
  from eq have same: "i < 0 \<longleftrightarrow> j < 0" using sign by metis
  show ?thesis
  proof (cases "i < 0")
    case True
    with same eq have "nat (- i) = nat (- j)"
      by (auto simp: toString_def dest: nat_toString_inj)
    with True same show ?thesis by simp
  next
    case False
    with same eq have "nat i = nat j"
      by (auto simp: toString_def dest: nat_toString_inj)
    with False same show ?thesis by simp
  qed
qed

lemma inj_toString: "inj toString"
  by (rule injI) (rule toString_inj)

section \<open>The ids of a sequence of adds\<close>

lemma addTextOverlay_ids:
  "map overlay_id (texts (addTextOverlay now text s)) = map overlay_id (texts s) @ [toString now]"
  by (simp add: addTextOverlay_def)

lemma addAll_ids:
  "map overlay_id (texts (addAll calls s)) = map overlay_id (texts s) @ map (toString \<circ> fst) calls"
  unfolding addAll_def
  by (induction calls arbitrary: s) (auto simp: addTextOverlay_ids)

lemma addAll_ids_distinct_iff:
  "distinct (map overlay_id (texts (addAll calls initialState))) \<longleftrightarrow> distinct (map fst calls)"
  by (simp add: addAll_ids initialState_def distinct_map inj_toString
      inj_on_subset [OF inj_toString] comp_inj_on_iff [symmetric] flip: map_map)

section \<open>Overlay defaults\<close>

text \<open>
  Claim C5. For every store state and every text, \<open>add\<close> appends one overlay with
  \<open>x = 50\<close>, \<open>fontSize = 32\<close>, white colour and \<open>isUppercase = true\<close>; its \<open>y\<close> is 10 when
  the store is empty at the call and 90 otherwise. Nothing but the emptiness of the store
  at call time enters the choice: after any removals \<open>rs\<close> before the call, \<open>y\<close> is 10
  exactly when they left the store empty.
\<close>

theorem addTextOverlay_defaults:
  "texts (addTextOverlay now text s) =
     texts s @ [\<lparr>overlay_id = toString now, overlay_text = text, overlay_x = 50,
                 overlay_y = (if texts s = [] then 10 else 90), fontSize = 32,
                 color = ''#FFFFFF'', isUppercase = True\<rparr>]
   \<and> (\<forall>rs. overlay_y (last (texts (addTextOverlay now text (fold removeText rs s))))
          = (if texts (fold removeText rs s) = [] then 10 else 90))"
  by (simp add: addTextOverlay_def)

text \<open>
  From the empty store \<open>LOL\<close> lands at \<open>(50, 10)\<close> and \<open>OK\<close> at \<open>(50, 90)\<close>. In the
  concrete session, with the first overlay removed a third add still lands at \<open>y = 90\<close>,
  and with both removed it lands at \<open>y = 10\<close> again.
\<close>

theorem addTextOverlay_defaults_witness:
  "map overlay_y (texts (addAll [(1700000000000, ''LOL''), (1700000000500, ''OK'')] initialState))
     = [10, 90]
   \<and> map overlay_x (texts (addAll [(1700000000000, ''LOL''), (1700000000500, ''OK'')] initialState))
     = [50, 50]
   \<and> overlay_y (last (texts (addTextOverlay 1700000000500 ''THIRD''
         (fold removeText [''1700000000000''] exampleState)))) = 90
   \<and> overlay_y (last (texts (addTextOverlay 1700000000500 ''THIRD''
         (fold removeText [''1700000000000'', ''1700000000500''] exampleState)))) = 10"
  using addTextOverlay_defaults
    [of 1700000000500 "''THIRD''" exampleState, THEN conjunct2,
      THEN spec, of "[''1700000000000'']"]
    addTextOverlay_defaults
    [of 1700000000500 "''THIRD''" exampleState, THEN conjunct2,
      THEN spec, of "[''1700000000000'', ''1700000000500'']"]
  by (simp add: addAll_def addTextOverlay_def removeText_def initialState_def exampleState_def
      toString_examples)

section \<open>Overlay ids\<close>

text \<open>
  Claim C1. For every sequence of \<open>add\<close> operations the ids of the created overlays
  should be pairwise distinct, also when two adds read the same clock value. The id is
  \<open>Date.now().toString()\<close> and nothing else: by \<open>addAll_ids_distinct_iff\<close> the ids
  of a sequence of adds are distinct exactly when the clock values are, and two adds
  within one millisecond get the same id.
\<close>

theorem addTextOverlay_same_instant_duplicate_ids:
  "map overlay_id
     (texts (addAll [(1700000000000, ''TOP''), (1700000000000, ''BOTTOM'')] initialState))
     = [''1700000000000'', ''1700000000000'']
   \<and> \<not> distinct (map overlay_id
          (texts (addAll [(1700000000000, ''TOP''), (1700000000000, ''BOTTOM'')] initialState)))"
  by (simp add: addAll_def addTextOverlay_def initialState_def toString_examples)

section \<open>Loading a new image\<close>

text \<open>
  Claim C2. For every prior state, whatever its overlay count, a successful load of a new
  image leaves no overlay and no cached caption: the upload (\<open>handleFileChange\<close> with
  a file that is read) installs the data URL of the file, the template selection
  (\<open>handleSelectTemplate\<close> with a response whose body is read) installs what the file
  reader yields, and both empty \<open>texts\<close> and \<open>captions\<close>.
\<close>

theorem image_load_clears_overlays_and_captions:
  "(fileToGenerativePart f = Fulfilled encoded \<longrightarrow>
      currentImage (handleFileChange fileToGenerativePart (Some f) s)
        = Some (''data:'' @ file_type f @ '';base64,'' @ encoded)
      \<and> texts (handleFileChange fileToGenerativePart (Some f) s) = []
      \<and> captions (handleFileChange fileToGenerativePart (Some f) s) = [])
   \<and> (fetch url = Fulfilled response \<and> blob response = Fulfilled b \<longrightarrow>
      currentImage (handleSelectTemplate fetch readAsDataURL url s) = readAsDataURL b
      \<and> texts (handleSelectTemplate fetch readAsDataURL url s) = []
      \<and> captions (handleSelectTemplate fetch readAsDataURL url s) = [])"
  by (simp add: handleFileChange_fulfilled handleSelectTemplate_fulfilled)

theorem image_load_clears_overlays_and_captions_witness:
  "length (texts exampleState) = 2 \<and> length (captions exampleState) = 1
   \<and> currentImage (handleFileChange (stub_fileToGenerativePart (Fulfilled ''QkJC'')) (Some \<lparr>file_type = ''image/png'', file_bytes = ''BBB''\<rparr>) exampleState)
       = Some ''data:image/png;base64,QkJC''
   \<and> texts (handleFileChange (stub_fileToGenerativePart (Fulfilled ''QkJC'')) (Some \<lparr>file_type = ''image/png'', file_bytes = ''BBB''\<rparr>) exampleState) = []
   \<and> captions (handleFileChange (stub_fileToGenerativePart (Fulfilled ''QkJC'')) (Some \<lparr>file_type = ''image/png'', file_bytes = ''BBB''\<rparr>) exampleState) = []
   \<and> currentImage (handleSelectTemplate (stub_fetch (Fulfilled \<lparr>ok = True, status = 200, blob = Fulfilled \<lparr>blob_type = ''image/png'', blob_bytes = ''BBB''\<rparr>\<rparr>))
        (stub_readAsDataURL (Some ''data:image/png;base64,QkJC'')) ''https://i.imgflip.com/30b1gx.jpg'' exampleState)
       = Some ''data:image/png;base64,QkJC''
   \<and> texts (handleSelectTemplate (stub_fetch (Fulfilled \<lparr>ok = True, status = 200, blob = Fulfilled \<lparr>blob_type = ''image/png'', blob_bytes = ''BBB''\<rparr>\<rparr>))
        (stub_readAsDataURL (Some ''data:image/png;base64,QkJC'')) ''https://i.imgflip.com/30b1gx.jpg'' exampleState) = []
   \<and> captions (handleSelectTemplate (stub_fetch (Fulfilled \<lparr>ok = True, status = 200, blob = Fulfilled \<lparr>blob_type = ''image/png'', blob_bytes = ''BBB''\<rparr>\<rparr>))
        (stub_readAsDataURL (Some ''data:image/png;base64,QkJC'')) ''https://i.imgflip.com/30b1gx.jpg'' exampleState) = []"
  using image_load_clears_overlays_and_captions
    [where fileToGenerativePart = "stub_fileToGenerativePart (Fulfilled ''QkJC'')"
       and f = "\<lparr>file_type = ''image/png'', file_bytes = ''BBB''\<rparr>" and encoded = "''QkJC''"
       and s = exampleState
       and fetch = "stub_fetch (Fulfilled \<lparr>ok = True, status = 200, blob = Fulfilled \<lparr>blob_type = ''image/png'', blob_bytes = ''BBB''\<rparr>\<rparr>)"
       and url = "''https://i.imgflip.com/30b1gx.jpg''"
       and response = "\<lparr>ok = True, status = 200, blob = Fulfilled \<lparr>blob_type = ''image/png'', blob_bytes = ''BBB''\<rparr>\<rparr>"
       and b = "\<lparr>blob_type = ''image/png'', blob_bytes = ''BBB''\<rparr>"
       and readAsDataURL = "stub_readAsDataURL (Some ''data:image/png;base64,QkJC'')"]
  by (simp add: stub_fileToGenerativePart_def stub_fetch_def stub_readAsDataURL_def
      exampleState_def)

section \<open>Editing the image\<close>

text \<open>
  Claim C3. For every state with an image loaded and a prompt that is not empty after
  trimming: when the edit adapter fulfils, \<open>handleEditImage\<close> installs the returned
  image and leaves the overlays exactly as they were; when it rejects, the image (and its
  mime type), the prompt text and the overlays are unchanged.
\<close>

theorem editImage_frame:
  assumes "currentImage s = Some img" and "img \<noteq> []" and "trim (editPrompt s) \<noteq> []"
  shows "(editMemeImage (split_comma_1 img) (currentMimeType s) (editPrompt s) = Fulfilled newImage \<longrightarrow>
            currentImage (handleEditImage editMemeImage s) = Some newImage
            \<and> texts (handleEditImage editMemeImage s) = texts s)
         \<and> (editMemeImage (split_comma_1 img) (currentMimeType s) (editPrompt s) = Rejected \<longrightarrow>
            currentImage (handleEditImage editMemeImage s) = currentImage s
            \<and> currentMimeType (handleEditImage editMemeImage s) = currentMimeType s
            \<and> editPrompt (handleEditImage editMemeImage s) = editPrompt s
            \<and> texts (handleEditImage editMemeImage s) = texts s)"
  using assms
  by (simp add: handleEditImage_entered handleEditImage_settle_def handleEditImage_start_def)

theorem editImage_frame_witness:
  "currentImage (handleEditImage (stub_editMemeImage (Fulfilled ''data:image/png;base64,QkJC'')) exampleState)
     = Some ''data:image/png;base64,QkJC''
   \<and> texts (handleEditImage (stub_editMemeImage (Fulfilled ''data:image/png;base64,QkJC'')) exampleState)
     = texts exampleState
   \<and> currentImage (handleEditImage (stub_editMemeImage Rejected) exampleState) = currentImage exampleState
   \<and> editPrompt (handleEditImage (stub_editMemeImage Rejected) exampleState) = ''add sunglasses''
   \<and> texts (handleEditImage (stub_editMemeImage Rejected) exampleState) = texts exampleState"
  using editImage_frame
    [where s = exampleState and img = "''data:image/jpeg;base64,QUFB''"
       and editMemeImage = "stub_editMemeImage (Fulfilled ''data:image/png;base64,QkJC'')"
       and newImage = "''data:image/png;base64,QkJC''"]
    editImage_frame
    [where s = exampleState and img = "''data:image/jpeg;base64,QUFB''"
       and editMemeImage = "stub_editMemeImage Rejected"]
  by (simp add: stub_editMemeImage_def exampleState_def trim_def isWhiteSpace_def)

section \<open>The busy state\<close>

text \<open>
  Claim C4. For every run of \<open>handleMagicCaption\<close>, \<open>handleEditImage\<close> or
  \<open>handleAnalyze\<close> whose body is entered (an image is loaded and, for the edit, the
  trimmed prompt is not empty), the loading state is \<open>IDLE\<close> when the run completes,
  whether the adapter fulfils or rejects. The same holds of each continuation alone, in
  whatever state it resumes.
\<close>

theorem operations_end_idle:
  assumes "currentImage s = Some img" and "img \<noteq> []"
  shows "loadingState (handleMagicCaption generateMagicCaptions s) = IDLE
         \<and> loadingState (handleAnalyze analyzeMemeContext s) = IDLE
         \<and> (trim (editPrompt s) \<noteq> [] \<longrightarrow> loadingState (handleEditImage editMemeImage s) = IDLE)
         \<and> loadingState (handleMagicCaption_settle r1 s1) = IDLE
         \<and> loadingState (handleEditImage_settle r2 s2) = IDLE
         \<and> loadingState (handleAnalyze_settle r3 s3) = IDLE"
  using assms
  by (simp add: handleMagicCaption_entered handleAnalyze_entered handleEditImage_entered
      settle_loadingState)

theorem operations_end_idle_witness:
  "loadingState (handleMagicCaption (stub_generateMagicCaptions Rejected) exampleState) = IDLE
   \<and> loadingState (handleAnalyze (stub_analyzeMemeContext (Fulfilled ''A dog.'')) exampleState)
       = IDLE
   \<and> loadingState (handleEditImage (stub_editMemeImage Rejected) exampleState) = IDLE
   \<and> loadingState (handleEditImage_settle Rejected (handleMagicCaption_start exampleState))
       = IDLE"
  using operations_end_idle
    [where s = exampleState and img = "''data:image/jpeg;base64,QUFB''"
       and generateMagicCaptions = "stub_generateMagicCaptions Rejected"
       and analyzeMemeContext = "stub_analyzeMemeContext (Fulfilled ''A dog.'')"
       and editMemeImage = "stub_editMemeImage Rejected"
       and ?r2.0 = Rejected and ?s2.0 = "handleMagicCaption_start exampleState"]
  by (simp add: exampleState_def trim_def isWhiteSpace_def)

section \<open>Overlay positions\<close>

text \<open>
  Claim C6, as the code has it. \<open>updateTextPosition\<close> neither clamps nor rejects: every
  overlay whose id matches stores exactly the given \<open>x\<close> and \<open>y\<close>, so its stored
  coordinates lie in \<open>[0,100]\<close> afterward exactly when the given ones do.
\<close>

theorem updateTextPosition_stores_verbatim:
  "\<forall>t \<in> set (texts (updateTextPosition i x y s)).
     overlay_id t = i \<longrightarrow>
       overlay_x t = x \<and> overlay_y t = y
       \<and> ((0 \<le> overlay_x t \<and> overlay_x t \<le> 100 \<and> 0 \<le> overlay_y t \<and> overlay_y t \<le> 100)
            \<longleftrightarrow> (0 \<le> x \<and> x \<le> 100 \<and> 0 \<le> y \<and> y \<le> 100))"
proof (intro ballI impI)
  fix t
  assume "t \<in> set (texts (updateTextPosition i x y s))" and "overlay_id t = i"
  then have "overlay_x t = x \<and> overlay_y t = y"
    by (rule updateTextPosition_matched)
  then show "overlay_x t = x \<and> overlay_y t = y
       \<and> ((0 \<le> overlay_x t \<and> overlay_x t \<le> 100 \<and> 0 \<le> overlay_y t \<and> overlay_y t \<le> 100)
            \<longleftrightarrow> (0 \<le> x \<and> x \<le> 100 \<and> 0 \<le> y \<and> y \<le> 100))"
    by simp
qed

theorem updateTextPosition_stores_verbatim_witness:
  "texts (updateTextPosition ''1700000000500'' 30 40 exampleState) ! 1
     \<in> set (texts (updateTextPosition ''1700000000500'' 30 40 exampleState))
   \<and> overlay_id (texts (updateTextPosition ''1700000000500'' 30 40 exampleState) ! 1)
       = ''1700000000500''
   \<and> overlay_x (texts (updateTextPosition ''1700000000500'' 30 40 exampleState) ! 1) = 30
   \<and> overlay_y (texts (updateTextPosition ''1700000000500'' 30 40 exampleState) ! 1) = 40"
  using updateTextPosition_stores_verbatim
    [where i = "''1700000000500''" and x = 30 and y = 40 and s = exampleState, THEN bspec,
      of "texts (updateTextPosition ''1700000000500'' 30 40 exampleState) ! 1"]
  by (simp add: updateTextPosition_def exampleState_def)

text \<open>
  Claim C6 as stated fails: a call with \<open>x = 150\<close> and \<open>y = -20\<close> leaves the matched
  overlay at \<open>(150, -20)\<close>, outside \<open>[0,100]\<close>.
\<close>

theorem updateTextPosition_out_of_range_counterexample:
  "overlay_id (texts (updateTextPosition ''1700000000500'' 150 (- 20) exampleState) ! 1)
     = ''1700000000500''
   \<and> overlay_x (texts (updateTextPosition ''1700000000500'' 150 (- 20) exampleState) ! 1) = 150
   \<and> overlay_y (texts (updateTextPosition ''1700000000500'' 150 (- 20) exampleState) ! 1) = - 20
   \<and> \<not> overlay_x (texts (updateTextPosition ''1700000000500'' 150 (- 20) exampleState) ! 1) \<le> 100
   \<and> \<not> 0 \<le> overlay_y (texts (updateTextPosition ''1700000000500'' 150 (- 20) exampleState) ! 1)"
  by (simp add: updateTextPosition_def exampleState_def)

section \<open>Image content and mime type\<close>

text \<open>
  Claim C7. No operation should change the image content without setting the matching
  mime type. The upload and the template load set both; \<open>handleEditImage\<close> sets the
  content only (\<open>handleEditImage_mimeType\<close>: it never changes the mime type). Editing the
  JPEG of the concrete session into a PNG leaves the mime type at \<open>image/jpeg\<close>.
\<close>

theorem handleEditImage_stale_mimeType:
  "currentMimeType exampleState = ''image/jpeg''
   \<and> currentImage (handleEditImage (stub_editMemeImage (Fulfilled ''data:image/png;base64,QkJC'')) exampleState)
       = Some ''data:image/png;base64,QkJC''
   \<and> currentMimeType (handleEditImage (stub_editMemeImage (Fulfilled ''data:image/png;base64,QkJC'')) exampleState)
       = ''image/jpeg''"
  by (simp add: handleEditImage_def handleEditImage_start_def handleEditImage_settle_def
      stub_editMemeImage_def exampleState_def trim_def isWhiteSpace_def)

section \<open>Transient state across a load or a replace\<close>

text \<open>
  Claim C8, as the code has it. A successful upload clears the error slot, and a
  successful template load clears it in the handler body; the reader callback that installs
  the template image afterwards leaves the slot as it finds it. A successful edit does not
  write the error slot on success: the slot is cleared when the edit starts, and the success
  continuation leaves it as it is in the state it resumes in. So after a successful edit
  (or template load) the slot is empty when no other handler ran in between, and otherwise
  holds what was set meanwhile. The stored analysis text is written by none of them, in any
  state: it stays as it was.
\<close>

theorem load_and_replace_transient_state:
  "(fileToGenerativePart f = Fulfilled encoded \<longrightarrow>
      errorMsg (handleFileChange fileToGenerativePart (Some f) s) = None
      \<and> analysisText (handleFileChange fileToGenerativePart (Some f) s) = analysisText s)
   \<and> (fetch url = Fulfilled response \<and> blob response = Fulfilled b \<longrightarrow>
      snd (handleSelectTemplate_body fetch url s) = Some b
      \<and> errorMsg (fst (handleSelectTemplate_body fetch url s)) = None
      \<and> analysisText (fst (handleSelectTemplate_body fetch url s)) = analysisText s
      \<and> errorMsg (handleSelectTemplate fetch readAsDataURL url s) = None
      \<and> analysisText (handleSelectTemplate fetch readAsDataURL url s) = analysisText s)
   \<and> errorMsg (reader_onloadend res c t) = errorMsg t
   \<and> analysisText (reader_onloadend res c t) = analysisText t
   \<and> errorMsg (handleEditImage_start s) = None
   \<and> analysisText (handleEditImage_start s) = analysisText s
   \<and> errorMsg (handleEditImage_settle (Fulfilled n) u) = errorMsg u
   \<and> analysisText (handleEditImage_settle (Fulfilled n) u) = analysisText u
   \<and> (currentImage s = Some img \<and> img \<noteq> [] \<and> trim (editPrompt s) \<noteq> []
        \<and> editMemeImage (split_comma_1 img) (currentMimeType s) (editPrompt s) = Fulfilled newImage \<longrightarrow>
      errorMsg (handleEditImage editMemeImage s) = None
      \<and> analysisText (handleEditImage editMemeImage s) = analysisText s)"
proof -
  have upload: "fileToGenerativePart f = Fulfilled encoded \<longrightarrow>
      errorMsg (handleFileChange fileToGenerativePart (Some f) s) = None
      \<and> analysisText (handleFileChange fileToGenerativePart (Some f) s) = analysisText s"
    by (simp add: handleFileChange_fulfilled)
  have template: "fetch url = Fulfilled response \<and> blob response = Fulfilled b \<longrightarrow>
      snd (handleSelectTemplate_body fetch url s) = Some b
      \<and> errorMsg (fst (handleSelectTemplate_body fetch url s)) = None
      \<and> analysisText (fst (handleSelectTemplate_body fetch url s)) = analysisText s
      \<and> errorMsg (handleSelectTemplate fetch readAsDataURL url s) = None
      \<and> analysisText (handleSelectTemplate fetch readAsDataURL url s) = analysisText s"
    by (simp add: handleSelectTemplate_fulfilled handleSelectTemplate_body_def)
  have callback: "errorMsg (reader_onloadend res c t) = errorMsg t
      \<and> analysisText (reader_onloadend res c t) = analysisText t"
    by (simp add: reader_onloadend_def)
  have start: "errorMsg (handleEditImage_start s) = None
      \<and> analysisText (handleEditImage_start s) = analysisText s"
    by (simp add: handleEditImage_start_def)
  have settle: "errorMsg (handleEditImage_settle (Fulfilled n) u) = errorMsg u
      \<and> analysisText (handleEditImage_settle (Fulfilled n) u) = analysisText u"
    by (simp add: handleEditImage_settle_def)
  have edit: "currentImage s = Some img \<and> img \<noteq> [] \<and> trim (editPrompt s) \<noteq> []
        \<and> editMemeImage (split_comma_1 img) (currentMimeType s) (editPrompt s) = Fulfilled newImage \<longrightarrow>
      errorMsg (handleEditImage editMemeImage s) = None
      \<and> analysisText (handleEditImage editMemeImage s) = analysisText s"
    by (simp add: handleEditImage_entered handleEditImage_settle_def handleEditImage_start_def)
  from upload template callback start settle edit show ?thesis
    by blast
qed

text \<open>
  In the concrete session the slot holds \<open>Analysis failed.\<close>; an upload, a template load
  and an edit each leave it empty. When an analysis is started and fails while the edit is
  in flight, the successful edit leaves that error in the slot.
\<close>

theorem load_and_replace_transient_state_witness:
  "errorMsg exampleState = Some ''Analysis failed.''
   \<and> errorMsg (handleFileChange (stub_fileToGenerativePart (Fulfilled ''QkJC''))
        (Some \<lparr>file_type = ''image/png'', file_bytes = ''BBB''\<rparr>) exampleState) = None
   \<and> errorMsg (handleSelectTemplate (stub_fetch (Fulfilled \<lparr>ok = True, status = 200, blob = Fulfilled \<lparr>blob_type = ''image/png'', blob_bytes = ''BBB''\<rparr>\<rparr>))
        (stub_readAsDataURL (Some ''data:image/png;base64,QkJC'')) ''https://i.imgflip.com/30b1gx.jpg'' exampleState) = None
   \<and> errorMsg (handleEditImage (stub_editMemeImage (Fulfilled ''data:image/png;base64,QkJC'')) exampleState) = None
   \<and> analysisText (handleEditImage (stub_editMemeImage (Fulfilled ''data:image/png;base64,QkJC'')) exampleState) = ''A cat.''
   \<and> errorMsg (handleEditImage_settle (Fulfilled ''data:image/png;base64,QkJC'')
        (handleAnalyze_settle Rejected (handleAnalyze_start (handleEditImage_start exampleState))))
       = Some ''Analysis failed.''
   \<and> analysisText (handleEditImage_settle (Fulfilled ''data:image/png;base64,QkJC'')
        (handleAnalyze_settle Rejected (handleAnalyze_start (handleEditImage_start exampleState))))
       = ''A cat.''"
  using load_and_replace_transient_state
    [where fileToGenerativePart = "stub_fileToGenerativePart (Fulfilled ''QkJC'')"
       and f = "\<lparr>file_type = ''image/png'', file_bytes = ''BBB''\<rparr>" and encoded = "''QkJC''"
       and s = exampleState
       and fetch = "stub_fetch (Fulfilled \<lparr>ok = True, status = 200, blob = Fulfilled \<lparr>blob_type = ''image/png'', blob_bytes = ''BBB''\<rparr>\<rparr>)"
       and url = "''https://i.imgflip.com/30b1gx.jpg''"
       and response = "\<lparr>ok = True, status = 200, blob = Fulfilled \<lparr>blob_type = ''image/png'', blob_bytes = ''BBB''\<rparr>\<rparr>"
       and b = "\<lparr>blob_type = ''image/png'', blob_bytes = ''BBB''\<rparr>"
       and readAsDataURL = "stub_readAsDataURL (Some ''data:image/png;base64,QkJC'')"
       and img = "''data:image/jpeg;base64,QUFB''"
       and editMemeImage = "stub_editMemeImage (Fulfilled ''data:image/png;base64,QkJC'')"
       and newImage = "''data:image/png;base64,QkJC''"
       and n = "''data:image/png;base64,QkJC''"
       and u = "handleAnalyze_settle Rejected (handleAnalyze_start (handleEditImage_start exampleState))"]
  by (simp add: stub_fileToGenerativePart_def stub_fetch_def stub_readAsDataURL_def
      stub_editMemeImage_def exampleState_def trim_def isWhiteSpace_def
      handleAnalyze_settle_def handleAnalyze_start_def handleEditImage_start_def)

text \<open>
  Claim C8 as stated fails. After a successful upload over the concrete session the
  analysis text of the previous image is still stored; and a successful edit during which
  an analysis was started and failed ends with that error in the slot, the analysis text
  still stored.
\<close>

theorem load_keeps_analysisText_counterexample:
  "currentImage (handleFileChange (stub_fileToGenerativePart (Fulfilled ''QkJC''))
        (Some \<lparr>file_type = ''image/png'', file_bytes = ''BBB''\<rparr>) exampleState)
     = Some ''data:image/png;base64,QkJC''
   \<and> analysisText (handleFileChange (stub_fileToGenerativePart (Fulfilled ''QkJC''))
        (Some \<lparr>file_type = ''image/png'', file_bytes = ''BBB''\<rparr>) exampleState) = ''A cat.''
   \<and> analysisText (handleFileChange (stub_fileToGenerativePart (Fulfilled ''QkJC''))
        (Some \<lparr>file_type = ''image/png'', file_bytes = ''BBB''\<rparr>) exampleState) \<noteq> []
   \<and> currentImage (handleEditImage_settle (Fulfilled ''data:image/png;base64,QkJC'')
        (handleAnalyze_settle Rejected (handleAnalyze_start (handleEditImage_start exampleState))))
       = Some ''data:image/png;base64,QkJC''
   \<and> errorMsg (handleEditImage_settle (Fulfilled ''data:image/png;base64,QkJC'')
        (handleAnalyze_settle Rejected (handleAnalyze_start (handleEditImage_start exampleState))))
       = Some ''Analysis failed.''
   \<and> analysisText (handleEditImage_settle (Fulfilled ''data:image/png;base64,QkJC'')
        (handleAnalyze_settle Rejected (handleAnalyze_start (handleEditImage_start exampleState))))
       = ''A cat.''"
  by (simp add: handleFileChange_def stub_fileToGenerativePart_def exampleState_def
      handleEditImage_settle_def handleAnalyze_settle_def handleAnalyze_start_def
      handleEditImage_start_def)

section \<open>Template fetch failures\<close>

text \<open>
  Claim C9. \<open>loadFromRemote\<close> should fail on a network failure and on a non-success HTTP
  response, leaving image, mime type and overlays untouched. On a rejected \<open>fetch\<close> (or
  body read) the handler does so (\<open>handleSelectTemplate_rejected\<close>). A response with status
  404 is not a rejection and the handler never reads \<open>response.ok\<close>
  (\<open>handleSelectTemplate_ignores_status\<close>): the error page replaces the image, the
  overlays are dropped and no error is reported.
\<close>

theorem handleSelectTemplate_http_error_replaces_image:
  "currentImage (handleSelectTemplate (stub_fetch (Fulfilled \<lparr>ok = False, status = 404, blob = Fulfilled \<lparr>blob_type = ''text/html'', blob_bytes = ''Not Found''\<rparr>\<rparr>))
        (stub_readAsDataURL (Some ''data:text/html;base64,Tm90IEZvdW5k'')) ''https://i.imgflip.com/30b1gx.jpg'' exampleState)
     = Some ''data:text/html;base64,Tm90IEZvdW5k''
   \<and> currentMimeType (handleSelectTemplate (stub_fetch (Fulfilled \<lparr>ok = False, status = 404, blob = Fulfilled \<lparr>blob_type = ''text/html'', blob_bytes = ''Not Found''\<rparr>\<rparr>))
        (stub_readAsDataURL (Some ''data:text/html;base64,Tm90IEZvdW5k'')) ''https://i.imgflip.com/30b1gx.jpg'' exampleState) = ''text/html''
   \<and> texts (handleSelectTemplate (stub_fetch (Fulfilled \<lparr>ok = False, status = 404, blob = Fulfilled \<lparr>blob_type = ''text/html'', blob_bytes = ''Not Found''\<rparr>\<rparr>))
        (stub_readAsDataURL (Some ''data:text/html;base64,Tm90IEZvdW5k'')) ''https://i.imgflip.com/30b1gx.jpg'' exampleState) = []
   \<and> errorMsg (handleSelectTemplate (stub_fetch (Fulfilled \<lparr>ok = False, status = 404, blob = Fulfilled \<lparr>blob_type = ''text/html'', blob_bytes = ''Not Found''\<rparr>\<rparr>))
        (stub_readAsDataURL (Some ''data:text/html;base64,Tm90IEZvdW5k'')) ''https://i.imgflip.com/30b1gx.jpg'' exampleState) = None
   \<and> length (texts exampleState) = 2
   \<and> currentImage exampleState = Some ''data:image/jpeg;base64,QUFB''"
  by (simp add: handleSelectTemplate_def handleSelectTemplate_body_def reader_onloadend_def
      stub_fetch_def stub_readAsDataURL_def exampleState_def)

section \<open>Removing and moving overlays by id\<close>

text \<open>
  Claim C10. For every store state, \<open>removeText i\<close> leaves no overlay with id \<open>i\<close> (all
  of them go when the id is duplicated) and \<open>updateTextPosition i x y\<close> rewrites the
  position of every overlay with id \<open>i\<close>, at its place in the list; under both, the
  overlays with another id are the same as before, in the same order.
\<close>

theorem remove_and_update_by_id:
  "(\<forall>t \<in> set (texts (removeText i s)). overlay_id t \<noteq> i)
   \<and> filter (\<lambda>t. overlay_id t \<noteq> i) (texts (removeText i s))
        = filter (\<lambda>t. overlay_id t \<noteq> i) (texts s)
   \<and> length (texts (updateTextPosition i x y s)) = length (texts s)
   \<and> (\<forall>k < length (texts s).
         texts (updateTextPosition i x y s) ! k =
           (if overlay_id (texts s ! k) = i
            then (texts s ! k)\<lparr>overlay_x := x, overlay_y := y\<rparr>
            else texts s ! k))
   \<and> filter (\<lambda>t. overlay_id t \<noteq> i) (texts (updateTextPosition i x y s))
        = filter (\<lambda>t. overlay_id t \<noteq> i) (texts s)"
proof -
  have upd: "filter (\<lambda>t. overlay_id t \<noteq> i)
               (map (\<lambda>t. if overlay_id t = i then t\<lparr>overlay_x := x, overlay_y := y\<rparr> else t) ts)
             = filter (\<lambda>t. overlay_id t \<noteq> i) ts" for ts
    by (induction ts) auto
  show ?thesis
    by (simp add: removeText_def updateTextPosition_def upd)
qed

theorem remove_and_update_by_id_witness:
  "map overlay_id (texts (addTextOverlay 1700000000000 ''AGAIN'' exampleState))
     = [''1700000000000'', ''1700000000500'', ''1700000000000'']
   \<and> map overlay_text
        (texts (removeText ''1700000000000'' (addTextOverlay 1700000000000 ''AGAIN'' exampleState)))
     = [''BOTTOM'']
   \<and> map overlay_y
        (texts (updateTextPosition ''1700000000000'' 30 40
          (addTextOverlay 1700000000000 ''AGAIN'' exampleState)))
     = [40, 90, 40]"
  using remove_and_update_by_id
    [where i = "''1700000000000''" and x = 30 and y = 40
       and s = "addTextOverlay 1700000000000 ''AGAIN'' exampleState"]
  by (simp add: removeText_def updateTextPosition_def addTextOverlay_def exampleState_def
      toString_examples)

end
